theory Spec2Isabelle
  imports Main
begin

section \<open>Parachute trains: the simulation engine of \<open>src/lib/simulation.ts\<close>\<close>

text \<open>
  The engine works on TypeScript \<open>number\<close>s that only ever hold integers (coordinates,
  counters). They are modelled as \<open>int\<close>, in two layers. The functions that carry the
  source's names compute with exact integer arithmetic, which is what the source computes
  as long as every value stays below the \<open>2 ^ 53\<close> limit of its number type. The
  functions \<open>applyActionNum\<close>, \<open>simulateStepNum\<close> and \<open>stepNNum\<close> round every sum
  and difference as the number type does; they are what the source computes at any
  integer input, and \<open>stepNNum_exact\<close> shows that the two layers agree within the range.
  The two string-literal unions are closed datatypes, the two interfaces are records, and
  \<open>number | null\<close> is \<open>int option\<close>.
\<close>

subsection \<open>Types\<close>

datatype TrainAction = Forward | Backward | Wait

datatype SweepPhase = SweepForward | ReturnFromForward | SweepBackward | ReturnFromBackward

record TrainState =
  position :: int
  parachutePosition :: int
  distanceFromHome :: int
  sweepPhase :: SweepPhase
  phaseNumber :: int
  stepsInPhase :: int
  isWaiting :: bool

record SimulationState =
  trainA :: TrainState
  trainB :: TrainState
  stepCount :: int
  hasCollided :: bool
  collisionPosition :: "int option"

subsection \<open>Train algorithm\<close>

definition isAtForeignParachute :: "TrainState \<Rightarrow> int \<Rightarrow> bool" where
  "isAtForeignParachute train otherTrainParachutePos =
     (position train = otherTrainParachutePos \<and> distanceFromHome train \<noteq> 0)"

text \<open>
  The \<open>default\<close> branch of the source's \<open>switch\<close> (returning \<open>'wait'\<close>) is unreachable for
  a value of the closed union \<open>SweepPhase\<close>, so the \<open>case\<close> below has the four branches
  of the type.
\<close>

definition getNextAction :: "TrainState \<Rightarrow> int \<Rightarrow> TrainAction" where
  "getNextAction train otherTrainParachutePos =
     (if isWaiting train then Wait
      else if isAtForeignParachute train otherTrainParachutePos then Wait
      else (case sweepPhase train of
              SweepForward \<Rightarrow> Forward
            | ReturnFromBackward \<Rightarrow> Forward
            | ReturnFromForward \<Rightarrow> Backward
            | SweepBackward \<Rightarrow> Backward))"

definition applyAction :: "TrainState \<Rightarrow> TrainAction \<Rightarrow> int \<Rightarrow> TrainState" where
  "applyAction train action otherTrainParachutePos =
     (let newTrain =
        (case action of
           Forward \<Rightarrow> train\<lparr>position := position train + 1,
                            distanceFromHome := distanceFromHome train + 1,
                            stepsInPhase := stepsInPhase train + 1\<rparr>
         | Backward \<Rightarrow> train\<lparr>position := position train - 1,
                             distanceFromHome := distanceFromHome train - 1,
                             stepsInPhase := stepsInPhase train + 1\<rparr>
         | Wait \<Rightarrow> (if isAtForeignParachute train otherTrainParachutePos
                     then train\<lparr>isWaiting := True\<rparr> else train))
      in if \<not> isWaiting newTrain \<and> stepsInPhase newTrain \<ge> phaseNumber newTrain
         then (case sweepPhase newTrain of
                 SweepForward \<Rightarrow>
                   newTrain\<lparr>stepsInPhase := 0, sweepPhase := ReturnFromForward\<rparr>
               | ReturnFromForward \<Rightarrow>
                   newTrain\<lparr>stepsInPhase := 0, sweepPhase := SweepBackward\<rparr>
               | SweepBackward \<Rightarrow>
                   newTrain\<lparr>stepsInPhase := 0, sweepPhase := ReturnFromBackward\<rparr>
               | ReturnFromBackward \<Rightarrow>
                   newTrain\<lparr>stepsInPhase := 0, sweepPhase := SweepForward,
                            phaseNumber := phaseNumber newTrain + 1\<rparr>)
         else newTrain)"

subsection \<open>Simulation engine\<close>

definition createTrainState :: "int \<Rightarrow> TrainState" where
  "createTrainState pos =
     \<lparr>position = pos, parachutePosition = pos, distanceFromHome = 0,
      sweepPhase = SweepForward, phaseNumber = 1, stepsInPhase = 0, isWaiting = False\<rparr>"

definition createSimulation :: "int \<Rightarrow> SimulationState" where
  "createSimulation distance =
     \<lparr>trainA = createTrainState 0, trainB = createTrainState distance,
      stepCount = 0, hasCollided = False, collisionPosition = None\<rparr>"

definition checkCollision :: "TrainState \<Rightarrow> TrainState \<Rightarrow> bool" where
  "checkCollision a b = (position a = position b)"

definition simulateStep :: "SimulationState \<Rightarrow> SimulationState" where
  "simulateStep state =
     (if hasCollided state then state
      else
        (let actionA = getNextAction (trainA state) (parachutePosition (trainB state));
             actionB = getNextAction (trainB state) (parachutePosition (trainA state));
             newTrainA = applyAction (trainA state) actionA (parachutePosition (trainB state));
             newTrainB = applyAction (trainB state) actionB (parachutePosition (trainA state));
             collided = checkCollision newTrainA newTrainB
         in \<lparr>trainA = newTrainA, trainB = newTrainB,
             stepCount = stepCount state + 1,
             hasCollided = collided,
             collisionPosition = (if collided then Some (position newTrainA) else None)\<rparr>))"

text \<open>
  The \<open>while\<close> loop of \<open>runSimulation\<close>. It terminates because every pass through the
  body works on a state that has not collided, and on such a state \<open>simulateStep\<close>
  adds one to \<open>stepCount\<close>. The source's default budget, \<open>maxSteps = 10000\<close>, is an
  argument here like any other.
\<close>

function runLoop :: "SimulationState \<Rightarrow> int \<Rightarrow> SimulationState" where
  "runLoop state maxSteps =
     (if \<not> hasCollided state \<and> stepCount state < maxSteps
      then runLoop (simulateStep state) maxSteps
      else state)"
  by pat_completeness auto
termination
  by (relation "measure (\<lambda>(s, m). nat (m - stepCount s))")
     (auto simp: simulateStep_def Let_def)

declare runLoop.simps [simp del]

definition runSimulation :: "int \<Rightarrow> int \<Rightarrow> SimulationState" where
  "runSimulation distance maxSteps = runLoop (createSimulation distance) maxSteps"

text \<open>The state after \<open>n\<close> applications of \<open>simulateStep\<close> (what a caller stepping by hand sees).\<close>

fun stepN :: "nat \<Rightarrow> SimulationState \<Rightarrow> SimulationState" where
  "stepN 0 w = w"
| "stepN (Suc n) w = simulateStep (stepN n w)"

text \<open>
  The successor of a sweep phase in the fixed cycle, as the phase-transition \<open>switch\<close> of
  \<open>applyAction\<close> assigns it.
\<close>

fun nextSweepPhase :: "SweepPhase \<Rightarrow> SweepPhase" where
  "nextSweepPhase SweepForward = ReturnFromForward"
| "nextSweepPhase ReturnFromForward = SweepBackward"
| "nextSweepPhase SweepBackward = ReturnFromBackward"
| "nextSweepPhase ReturnFromBackward = SweepForward"

subsection \<open>Auxiliary notions for the trajectory proofs\<close>

text \<open>The direction of travel \<open>getNextAction\<close> picks for a sweep phase, as a signed unit step.\<close>

fun sweepDirection :: "SweepPhase \<Rightarrow> int" where
  "sweepDirection SweepForward = 1"
| "sweepDirection ReturnFromBackward = 1"
| "sweepDirection ReturnFromForward = - 1"
| "sweepDirection SweepBackward = - 1"

text \<open>
  Worlds met along a run with separation \<open>D\<close>. In \<open>searching D d ph n s c\<close> both trains
  are still sweeping, in lock step: each is \<open>d\<close> away from its own parachute, in phase
  \<open>ph\<close> of cycle \<open>n\<close>, \<open>s\<close> steps into it, after \<open>c\<close> ticks.
\<close>

definition searching :: "int \<Rightarrow> int \<Rightarrow> SweepPhase \<Rightarrow> int \<Rightarrow> int \<Rightarrow> int \<Rightarrow> SimulationState" where
  "searching D d ph n s c =
     \<lparr>trainA = \<lparr>position = d, parachutePosition = 0, distanceFromHome = d,
                sweepPhase = ph, phaseNumber = n, stepsInPhase = s, isWaiting = False\<rparr>,
      trainB = \<lparr>position = D + d, parachutePosition = D, distanceFromHome = d,
                sweepPhase = ph, phaseNumber = n, stepsInPhase = s, isWaiting = False\<rparr>,
      stepCount = c, hasCollided = False, collisionPosition = None\<rparr>"

text \<open>
  In \<open>chasing D j aw c\<close> train A stands on train B's parachute at \<open>D\<close> (waiting iff \<open>aw\<close>)
  and train B is \<open>j\<close> steps into its return from \<open>2 * D\<close>.
\<close>

definition chasing :: "int \<Rightarrow> int \<Rightarrow> bool \<Rightarrow> int \<Rightarrow> SimulationState" where
  "chasing D j aw c =
     \<lparr>trainA = \<lparr>position = D, parachutePosition = 0, distanceFromHome = D,
                sweepPhase = ReturnFromForward, phaseNumber = D, stepsInPhase = 0,
                isWaiting = aw\<rparr>,
      trainB = \<lparr>position = 2 * D - j, parachutePosition = D, distanceFromHome = D - j,
                sweepPhase = ReturnFromForward, phaseNumber = D, stepsInPhase = j,
                isWaiting = False\<rparr>,
      stepCount = c, hasCollided = False, collisionPosition = None\<rparr>"

text \<open>The world in which train B has come back to its parachute and met the waiting train A.\<close>

definition met :: "int \<Rightarrow> SimulationState" where
  "met D =
     \<lparr>trainA = \<lparr>position = D, parachutePosition = 0, distanceFromHome = D,
                sweepPhase = ReturnFromForward, phaseNumber = D, stepsInPhase = 0,
                isWaiting = True\<rparr>,
      trainB = \<lparr>position = D, parachutePosition = D, distanceFromHome = 0,
                sweepPhase = SweepBackward, phaseNumber = D, stepsInPhase = 0,
                isWaiting = False\<rparr>,
      stepCount = 2 * D * D, hasCollided = True, collisionPosition = Some D\<rparr>"

text \<open>
  Exchanging the two trains and translating every coordinate by \<open>c\<close>: the symmetry that
  relates the runs for separations \<open>D\<close> and \<open>- D\<close>.
\<close>

definition shiftTrain :: "int \<Rightarrow> TrainState \<Rightarrow> TrainState" where
  "shiftTrain c t = t\<lparr>position := position t + c, parachutePosition := parachutePosition t + c\<rparr>"

definition swapShift :: "int \<Rightarrow> SimulationState \<Rightarrow> SimulationState" where
  "swapShift c w =
     w\<lparr>trainA := shiftTrain c (trainB w), trainB := shiftTrain c (trainA w),
       collisionPosition := map_option (\<lambda>p. p + c) (collisionPosition w)\<rparr>"

subsection \<open>The source's number type\<close>

text \<open>
  A TypeScript \<open>number\<close> is an IEEE-754 double: 53 bits of significand, round to nearest,
  ties to even. Every integer of magnitude up to \<open>2 ^ 53\<close> is a number; above that the
  numbers are \<open>spacing\<close> apart, 2 from \<open>2 ^ 53\<close>, 4 from \<open>2 ^ 54\<close>, and so on.
  \<open>roundNumber y\<close> is the number that the source's \<open>+\<close> and \<open>-\<close> store when the exact
  result is the integer \<open>y\<close>. (The results rounded here are \<open>x + 1\<close> and \<open>x - 1\<close> for a
  finite number \<open>x\<close>, which never overflow to an infinity.)
\<close>

function spacing :: "int \<Rightarrow> int" where
  "spacing m = (if m < 2 ^ 53 then 1 else 2 * spacing (m div 2))"
  by pat_completeness auto
termination
  by (relation "measure nat") auto

declare spacing.simps [simp del]

definition roundNearestEven :: "int \<Rightarrow> int \<Rightarrow> int" where
  "roundNearestEven u m =
     (let q = m div u; r = m mod u
      in if 2 * r < u then q * u
         else if u < 2 * r then (q + 1) * u
         else if even q then q * u else (q + 1) * u)"

definition roundNumber :: "int \<Rightarrow> int" where
  "roundNumber y =
     (if \<bar>y\<bar> \<le> 2 ^ 53 then y
      else sgn y * roundNearestEven (spacing \<bar>y\<bar>) \<bar>y\<bar>)"

text \<open>
  \<open>applyAction\<close>, \<open>simulateStep\<close> and the iteration of steps with every sum and difference
  rounded as the source's number type rounds it. The definitions above them, with exact
  integer arithmetic, agree with these as long as no value leaves the range in which
  numbers are exact.
\<close>

definition applyActionNum :: "TrainState \<Rightarrow> TrainAction \<Rightarrow> int \<Rightarrow> TrainState" where
  "applyActionNum train action otherTrainParachutePos =
     (let newTrain =
        (case action of
           Forward \<Rightarrow> train\<lparr>position := roundNumber (position train + 1),
                            distanceFromHome := roundNumber (distanceFromHome train + 1),
                            stepsInPhase := roundNumber (stepsInPhase train + 1)\<rparr>
         | Backward \<Rightarrow> train\<lparr>position := roundNumber (position train - 1),
                             distanceFromHome := roundNumber (distanceFromHome train - 1),
                             stepsInPhase := roundNumber (stepsInPhase train + 1)\<rparr>
         | Wait \<Rightarrow> (if isAtForeignParachute train otherTrainParachutePos
                     then train\<lparr>isWaiting := True\<rparr> else train))
      in if \<not> isWaiting newTrain \<and> stepsInPhase newTrain \<ge> phaseNumber newTrain
         then (case sweepPhase newTrain of
                 SweepForward \<Rightarrow>
                   newTrain\<lparr>stepsInPhase := 0, sweepPhase := ReturnFromForward\<rparr>
               | ReturnFromForward \<Rightarrow>
                   newTrain\<lparr>stepsInPhase := 0, sweepPhase := SweepBackward\<rparr>
               | SweepBackward \<Rightarrow>
                   newTrain\<lparr>stepsInPhase := 0, sweepPhase := ReturnFromBackward\<rparr>
               | ReturnFromBackward \<Rightarrow>
                   newTrain\<lparr>stepsInPhase := 0, sweepPhase := SweepForward,
                            phaseNumber := roundNumber (phaseNumber newTrain + 1)\<rparr>)
         else newTrain)"

definition simulateStepNum :: "SimulationState \<Rightarrow> SimulationState" where
  "simulateStepNum state =
     (if hasCollided state then state
      else
        (let actionA = getNextAction (trainA state) (parachutePosition (trainB state));
             actionB = getNextAction (trainB state) (parachutePosition (trainA state));
             newTrainA = applyActionNum (trainA state) actionA (parachutePosition (trainB state));
             newTrainB = applyActionNum (trainB state) actionB (parachutePosition (trainA state));
             collided = checkCollision newTrainA newTrainB
         in \<lparr>trainA = newTrainA, trainB = newTrainB,
             stepCount = roundNumber (stepCount state + 1),
             hasCollided = collided,
             collisionPosition = (if collided then Some (position newTrainA) else None)\<rparr>))"

fun stepNNum :: "nat \<Rightarrow> SimulationState \<Rightarrow> SimulationState" where
  "stepNNum 0 w = w"
| "stepNNum (Suc n) w = simulateStepNum (stepNNum n w)"

text \<open>The magnitudes that a tick changes, bounded by \<open>b\<close>.\<close>

definition trainWithin :: "int \<Rightarrow> TrainState \<Rightarrow> bool" where
  "trainWithin b t =
     (\<bar>position t\<bar> \<le> b \<and> \<bar>distanceFromHome t\<bar> \<le> b
      \<and> \<bar>stepsInPhase t\<bar> \<le> b \<and> \<bar>phaseNumber t\<bar> \<le> b)"

definition worldWithin :: "int \<Rightarrow> SimulationState \<Rightarrow> bool" where
  "worldWithin b w =
     (trainWithin b (trainA w) \<and> trainWithin b (trainB w) \<and> \<bar>stepCount w\<bar> \<le> b)"

section \<open>Basic facts\<close>

lemma stepN_add: "stepN (m + n) w = stepN n (stepN m w)"
  by (induction n) simp_all

lemma simulateStep_collided: "hasCollided w \<Longrightarrow> simulateStep w = w"
  by (simp add: simulateStep_def)

lemma stepN_collided: "hasCollided w \<Longrightarrow> stepN n w = w"
  by (induction n) (simp_all add: simulateStep_collided)

lemma waiting_tick:
  "isWaiting t \<Longrightarrow> applyAction t (getNextAction t oh) oh = t"
  by (simp add: getNextAction_def applyAction_def Let_def)

lemma simulateStep_waitingA: "isWaiting (trainA w) \<Longrightarrow> trainA (simulateStep w) = trainA w"
  by (simp add: simulateStep_def Let_def waiting_tick)

lemma simulateStep_waitingB: "isWaiting (trainB w) \<Longrightarrow> trainB (simulateStep w) = trainB w"
  by (simp add: simulateStep_def Let_def waiting_tick)

lemma stepN_waitingA: "isWaiting (trainA w) \<Longrightarrow> trainA (stepN n w) = trainA w"
  by (induction n) (simp_all add: simulateStep_waitingA)

lemma stepN_waitingB: "isWaiting (trainB w) \<Longrightarrow> trainB (stepN n w) = trainB w"
  by (induction n) (simp_all add: simulateStep_waitingB)

section \<open>The decision function\<close>

text \<open>
  C3. For a train whose \<open>distanceFromHome\<close> equals \<open>position - parachutePosition\<close>,
  \<open>getNextAction\<close> answers \<open>Wait\<close> exactly when the train is already waiting or stands
  on the other train's parachute away from its own; otherwise the sweep phase alone
  decides: forward in \<open>SweepForward\<close> and \<open>ReturnFromBackward\<close>, backward in
  \<open>ReturnFromForward\<close> and \<open>SweepBackward\<close>.
\<close>

theorem getNextAction_decision:
  assumes "distanceFromHome t = position t - parachutePosition t"
  shows "(getNextAction t otherHome = Wait \<longleftrightarrow>
            (isWaiting t \<or> (position t = otherHome \<and> position t \<noteq> parachutePosition t)))
       \<and> (\<not> (isWaiting t \<or> (position t = otherHome \<and> position t \<noteq> parachutePosition t)) \<longrightarrow>
            ((sweepPhase t = SweepForward \<or> sweepPhase t = ReturnFromBackward)
                \<longrightarrow> getNextAction t otherHome = Forward)
          \<and> ((sweepPhase t = ReturnFromForward \<or> sweepPhase t = SweepBackward)
                \<longrightarrow> getNextAction t otherHome = Backward))"
  using assms
  by (cases "sweepPhase t") (auto simp: getNextAction_def isAtForeignParachute_def)

theorem getNextAction_decision_witness:
  "getNextAction (createTrainState 0) 3 = Forward
   \<and> getNextAction ((createTrainState 0)\<lparr>position := 3, distanceFromHome := 3\<rparr>) 3 = Wait"
  using getNextAction_decision [of "createTrainState 0" 3]
        getNextAction_decision [of "(createTrainState 0)\<lparr>position := 3, distanceFromHome := 3\<rparr>" 3]
  by (simp add: createTrainState_def)

section \<open>The waiting latch\<close>

text \<open>
  C4. In a run from \<open>createSimulation D\<close>, a train that is waiting after \<open>m\<close> steps is
  still waiting after any further \<open>n\<close> steps, and its position, sweep phase, phase
  number and steps-in-phase are the ones it had after \<open>m\<close> steps.
\<close>

theorem waiting_latch_absorbing:
  "(isWaiting (trainA (stepN m (createSimulation D))) \<longrightarrow>
      isWaiting (trainA (stepN (m + n) (createSimulation D)))
    \<and> position (trainA (stepN (m + n) (createSimulation D)))
        = position (trainA (stepN m (createSimulation D)))
    \<and> sweepPhase (trainA (stepN (m + n) (createSimulation D)))
        = sweepPhase (trainA (stepN m (createSimulation D)))
    \<and> phaseNumber (trainA (stepN (m + n) (createSimulation D)))
        = phaseNumber (trainA (stepN m (createSimulation D)))
    \<and> stepsInPhase (trainA (stepN (m + n) (createSimulation D)))
        = stepsInPhase (trainA (stepN m (createSimulation D))))
 \<and> (isWaiting (trainB (stepN m (createSimulation D))) \<longrightarrow>
      isWaiting (trainB (stepN (m + n) (createSimulation D)))
    \<and> position (trainB (stepN (m + n) (createSimulation D)))
        = position (trainB (stepN m (createSimulation D)))
    \<and> sweepPhase (trainB (stepN (m + n) (createSimulation D)))
        = sweepPhase (trainB (stepN m (createSimulation D)))
    \<and> phaseNumber (trainB (stepN (m + n) (createSimulation D)))
        = phaseNumber (trainB (stepN m (createSimulation D)))
    \<and> stepsInPhase (trainB (stepN (m + n) (createSimulation D)))
        = stepsInPhase (trainB (stepN m (createSimulation D))))"
  by (simp add: stepN_add stepN_waitingA stepN_waitingB)

theorem waiting_latch_absorbing_witness:
  "isWaiting (trainA (stepN 7 (createSimulation 2)))
   \<and> \<not> hasCollided (stepN 7 (createSimulation 2))
   \<and> isWaiting (trainA (stepN (7 + 1) (createSimulation 2)))
   \<and> position (trainA (stepN (7 + 1) (createSimulation 2))) = 2
   \<and> isWaiting (trainB (stepN (7 + 36) (createSimulation (-2))))
   \<and> position (trainB (stepN (7 + 36) (createSimulation (-2)))) = 0"
proof -
  have a: "isWaiting (trainA (stepN 7 (createSimulation 2)))" by code_simp
  have b: "\<not> hasCollided (stepN 7 (createSimulation 2))" by code_simp
  have c: "position (trainA (stepN 7 (createSimulation 2))) = 2" by code_simp
  have d: "isWaiting (trainB (stepN 7 (createSimulation (-2))))" by code_simp
  have e: "position (trainB (stepN 7 (createSimulation (-2)))) = 0" by code_simp
  show ?thesis
    using a b c d e waiting_latch_absorbing [of 7 2 1] waiting_latch_absorbing [of 7 "-2" 36]
    by simp
qed

section \<open>The frozen world\<close>

text \<open>
  C5. On a world that has collided, \<open>simulateStep\<close> returns the world it was given:
  both trains, the step count and the collision position are unchanged.
\<close>

theorem simulateStep_frozen_after_collision:
  "hasCollided w \<Longrightarrow> simulateStep w = w"
  by (simp add: simulateStep_def)

theorem simulateStep_frozen_after_collision_witness:
  "hasCollided (stepN 8 (createSimulation 2))
   \<and> simulateStep (stepN 8 (createSimulation 2)) = stepN 8 (createSimulation 2)"
proof -
  have a: "hasCollided (stepN 8 (createSimulation 2))" by code_simp
  show ?thesis using a simulateStep_frozen_after_collision [OF a] by simp
qed

section \<open>The offset invariant\<close>

lemma applyAction_parachute:
  "parachutePosition (applyAction t a oh) = parachutePosition t"
  by (cases a; cases "sweepPhase t") (simp_all add: applyAction_def Let_def)

lemma applyAction_offset:
  "distanceFromHome t = position t - parachutePosition t \<Longrightarrow>
   distanceFromHome (applyAction t a oh)
     = position (applyAction t a oh) - parachutePosition (applyAction t a oh)"
  by (cases a; cases "sweepPhase t") (simp_all add: applyAction_def Let_def)

lemma simulateStep_offsetA:
  "distanceFromHome (trainA w) = position (trainA w) - parachutePosition (trainA w) \<Longrightarrow>
   distanceFromHome (trainA (simulateStep w))
     = position (trainA (simulateStep w)) - parachutePosition (trainA (simulateStep w))"
  by (simp add: simulateStep_def Let_def applyAction_offset)

lemma simulateStep_offsetB:
  "distanceFromHome (trainB w) = position (trainB w) - parachutePosition (trainB w) \<Longrightarrow>
   distanceFromHome (trainB (simulateStep w))
     = position (trainB (simulateStep w)) - parachutePosition (trainB (simulateStep w))"
  by (simp add: simulateStep_def Let_def applyAction_offset)

lemma stepN_offset:
  "distanceFromHome (trainA (stepN n (createSimulation D)))
     = position (trainA (stepN n (createSimulation D)))
       - parachutePosition (trainA (stepN n (createSimulation D)))
 \<and> distanceFromHome (trainB (stepN n (createSimulation D)))
     = position (trainB (stepN n (createSimulation D)))
       - parachutePosition (trainB (stepN n (createSimulation D)))"
proof (induction n)
  case 0
  show ?case by (simp add: createSimulation_def createTrainState_def)
next
  case (Suc n)
  then show ?case
    using simulateStep_offsetA [of "stepN n (createSimulation D)"]
          simulateStep_offsetB [of "stepN n (createSimulation D)"]
    by simp
qed

section \<open>No dependence on the other train's live state\<close>

text \<open>
  C9. For two worlds that have not collided and that agree on train A and on train B's
  parachute position, \<open>simulateStep\<close> gives the same train A, whatever train B's
  position, phase or counters are; and the same with the trains exchanged.
\<close>

theorem simulateStep_train_independent:
  assumes "\<not> hasCollided w1" and "\<not> hasCollided w2"
  shows "(trainA w1 = trainA w2
            \<and> parachutePosition (trainB w1) = parachutePosition (trainB w2)
          \<longrightarrow> trainA (simulateStep w1) = trainA (simulateStep w2))
       \<and> (trainB w1 = trainB w2
            \<and> parachutePosition (trainA w1) = parachutePosition (trainA w2)
          \<longrightarrow> trainB (simulateStep w1) = trainB (simulateStep w2))"
  using assms by (simp add: simulateStep_def Let_def)

theorem simulateStep_train_independent_witness:
  "trainA (simulateStep (createSimulation 3))
     = trainA (simulateStep ((createSimulation 3)
          \<lparr>trainB := (createTrainState 3)\<lparr>position := 50, sweepPhase := SweepBackward,
                                          stepsInPhase := 4, phaseNumber := 9\<rparr>\<rparr>))
 \<and> trainB (simulateStep (createSimulation 3))
     = trainB (simulateStep ((createSimulation 3)
          \<lparr>trainA := (createTrainState 0)\<lparr>position := -7, sweepPhase := ReturnFromForward,
                                          isWaiting := True\<rparr>\<rparr>))"
  using simulateStep_train_independent [of "createSimulation 3"
          "(createSimulation 3)
          \<lparr>trainB := (createTrainState 3)\<lparr>position := 50, sweepPhase := SweepBackward,
                                          stepsInPhase := 4, phaseNumber := 9\<rparr>\<rparr>"]
        simulateStep_train_independent [of "createSimulation 3"
          "(createSimulation 3)
          \<lparr>trainA := (createTrainState 0)\<lparr>position := -7, sweepPhase := ReturnFromForward,
                                          isWaiting := True\<rparr>\<rparr>"]
  by (simp add: createSimulation_def createTrainState_def)

section \<open>Movement is not guarded by the latch in \<open>applyAction\<close>\<close>



section \<open>Phase counters\<close>

lemma tick_phase_discipline:
  assumes "1 \<le> phaseNumber t" and "0 \<le> stepsInPhase t" and "stepsInPhase t < phaseNumber t"
  shows "1 \<le> phaseNumber (applyAction t (getNextAction t oh) oh)
       \<and> 0 \<le> stepsInPhase (applyAction t (getNextAction t oh) oh)
       \<and> stepsInPhase (applyAction t (getNextAction t oh) oh)
           < phaseNumber (applyAction t (getNextAction t oh) oh)"
  using assms
  by (cases "sweepPhase t")
     (auto simp: getNextAction_def applyAction_def Let_def)

lemma tick_phase_change:
  "phaseNumber (applyAction t (getNextAction t oh) oh)
     = (if sweepPhase t = ReturnFromBackward
           \<and> sweepPhase (applyAction t (getNextAction t oh) oh) = SweepForward
        then phaseNumber t + 1 else phaseNumber t)
   \<and> (sweepPhase (applyAction t (getNextAction t oh) oh) = sweepPhase t
      \<or> sweepPhase (applyAction t (getNextAction t oh) oh) = nextSweepPhase (sweepPhase t))"
  by (cases "sweepPhase t")
     (auto simp: getNextAction_def applyAction_def Let_def)

lemma simulateStep_phase_changeA:
  "phaseNumber (trainA (simulateStep w))
     = (if sweepPhase (trainA w) = ReturnFromBackward
           \<and> sweepPhase (trainA (simulateStep w)) = SweepForward
        then phaseNumber (trainA w) + 1 else phaseNumber (trainA w))
   \<and> (sweepPhase (trainA (simulateStep w)) = sweepPhase (trainA w)
      \<or> sweepPhase (trainA (simulateStep w)) = nextSweepPhase (sweepPhase (trainA w)))"
proof (cases "hasCollided w")
  case True
  then show ?thesis by (simp add: simulateStep_collided)
next
  case False
  then show ?thesis
    using tick_phase_change [of "trainA w" "parachutePosition (trainB w)"]
    by (simp add: simulateStep_def Let_def)
qed

lemma simulateStep_phase_changeB:
  "phaseNumber (trainB (simulateStep w))
     = (if sweepPhase (trainB w) = ReturnFromBackward
           \<and> sweepPhase (trainB (simulateStep w)) = SweepForward
        then phaseNumber (trainB w) + 1 else phaseNumber (trainB w))
   \<and> (sweepPhase (trainB (simulateStep w)) = sweepPhase (trainB w)
      \<or> sweepPhase (trainB (simulateStep w)) = nextSweepPhase (sweepPhase (trainB w)))"
proof (cases "hasCollided w")
  case True
  then show ?thesis by (simp add: simulateStep_collided)
next
  case False
  then show ?thesis
    using tick_phase_change [of "trainB w" "parachutePosition (trainA w)"]
    by (simp add: simulateStep_def Let_def)
qed

lemma stepN_phase_monoA: "phaseNumber (trainA w) \<le> phaseNumber (trainA (stepN k w))"
proof (induction k)
  case 0
  show ?case by simp
next
  case (Suc k)
  have "phaseNumber (trainA (stepN k w)) \<le> phaseNumber (trainA (simulateStep (stepN k w)))"
    using simulateStep_phase_changeA [of "stepN k w"] by (simp split: if_splits)
  with Suc show ?case by simp
qed

lemma stepN_phase_monoB: "phaseNumber (trainB w) \<le> phaseNumber (trainB (stepN k w))"
proof (induction k)
  case 0
  show ?case by simp
next
  case (Suc k)
  have "phaseNumber (trainB (stepN k w)) \<le> phaseNumber (trainB (simulateStep (stepN k w)))"
    using simulateStep_phase_changeB [of "stepN k w"] by (simp split: if_splits)
  with Suc show ?case by simp
qed

lemma stepN_phase_bounds:
  "(1 \<le> phaseNumber (trainA (stepN n (createSimulation D)))
    \<and> 0 \<le> stepsInPhase (trainA (stepN n (createSimulation D)))
    \<and> stepsInPhase (trainA (stepN n (createSimulation D)))
        < phaseNumber (trainA (stepN n (createSimulation D))))
 \<and> (1 \<le> phaseNumber (trainB (stepN n (createSimulation D)))
    \<and> 0 \<le> stepsInPhase (trainB (stepN n (createSimulation D)))
    \<and> stepsInPhase (trainB (stepN n (createSimulation D)))
        < phaseNumber (trainB (stepN n (createSimulation D))))"
proof (induction n)
  case 0
  show ?case by (simp add: createSimulation_def createTrainState_def)
next
  case (Suc n)
  let ?w = "stepN n (createSimulation D)"
  show ?case
  proof (cases "hasCollided ?w")
    case True
    with Suc show ?thesis by (simp add: simulateStep_collided)
  next
    case False
    have a: "trainA (simulateStep ?w)
               = applyAction (trainA ?w) (getNextAction (trainA ?w) (parachutePosition (trainB ?w)))
                   (parachutePosition (trainB ?w))"
      using False by (simp add: simulateStep_def Let_def)
    have b: "trainB (simulateStep ?w)
               = applyAction (trainB ?w) (getNextAction (trainB ?w) (parachutePosition (trainA ?w)))
                   (parachutePosition (trainA ?w))"
      using False by (simp add: simulateStep_def Let_def)
    show ?thesis
      using Suc tick_phase_discipline [of "trainA ?w" "parachutePosition (trainB ?w)"]
            tick_phase_discipline [of "trainB ?w" "parachutePosition (trainA ?w)"]
      by (simp add: a b)
  qed
qed

lemma tick_cycle_end:
  assumes "stepsInPhase t < phaseNumber t"
  shows "(sweepPhase t = ReturnFromBackward
            \<and> sweepPhase (applyAction t (getNextAction t oh) oh) = SweepForward)
       = (sweepPhase t = ReturnFromBackward \<and> getNextAction t oh = Forward
            \<and> stepsInPhase t + 1 = phaseNumber t)"
  using assms
  by (cases "sweepPhase t")
     (auto simp: getNextAction_def applyAction_def Let_def)

lemma simulateStep_cycle_endA:
  assumes "stepsInPhase (trainA w) < phaseNumber (trainA w)"
  shows "(sweepPhase (trainA w) = ReturnFromBackward
            \<and> sweepPhase (trainA (simulateStep w)) = SweepForward)
       = (\<not> hasCollided w \<and> sweepPhase (trainA w) = ReturnFromBackward
            \<and> getNextAction (trainA w) (parachutePosition (trainB w)) = Forward
            \<and> stepsInPhase (trainA w) + 1 = phaseNumber (trainA w))"
proof (cases "hasCollided w")
  case True
  then show ?thesis by (auto simp: simulateStep_collided)
next
  case False
  then show ?thesis
    using tick_cycle_end [OF assms, of "parachutePosition (trainB w)"]
    by (simp add: simulateStep_def Let_def)
qed

lemma simulateStep_cycle_endB:
  assumes "stepsInPhase (trainB w) < phaseNumber (trainB w)"
  shows "(sweepPhase (trainB w) = ReturnFromBackward
            \<and> sweepPhase (trainB (simulateStep w)) = SweepForward)
       = (\<not> hasCollided w \<and> sweepPhase (trainB w) = ReturnFromBackward
            \<and> getNextAction (trainB w) (parachutePosition (trainA w)) = Forward
            \<and> stepsInPhase (trainB w) + 1 = phaseNumber (trainB w))"
proof (cases "hasCollided w")
  case True
  then show ?thesis by (auto simp: simulateStep_collided)
next
  case False
  then show ?thesis
    using tick_cycle_end [OF assms, of "parachutePosition (trainA w)"]
    by (simp add: simulateStep_def Let_def)
qed

text \<open>
  C7. In every world \<open>w\<close> reached from \<open>createSimulation D\<close>, each train has
  \<open>phaseNumber \<ge> 1\<close> and \<open>0 \<le> stepsInPhase < phaseNumber\<close>. Over one more step the
  sweep phase stays or moves to its successor in the cycle, and \<open>phaseNumber\<close> grows by
  exactly one when the train leaves \<open>ReturnFromBackward\<close> for \<open>SweepForward\<close> (the end
  of a four-sub-phase cycle) and is unchanged otherwise; so it never decreases along the
  run. The train leaves \<open>ReturnFromBackward\<close> exactly in the tick in which it makes the
  last, \<open>phaseNumber\<close>-th, forward step of that sub-phase.
\<close>

theorem phase_counters_reachable:
  fixes D :: int and n k :: nat
  defines "w \<equiv> stepN n (createSimulation D)"
  shows "(1 \<le> phaseNumber (trainA w) \<and> 0 \<le> stepsInPhase (trainA w)
          \<and> stepsInPhase (trainA w) < phaseNumber (trainA w))
       \<and> (1 \<le> phaseNumber (trainB w) \<and> 0 \<le> stepsInPhase (trainB w)
          \<and> stepsInPhase (trainB w) < phaseNumber (trainB w))
       \<and> phaseNumber (trainA (simulateStep w))
           = (if sweepPhase (trainA w) = ReturnFromBackward
                 \<and> sweepPhase (trainA (simulateStep w)) = SweepForward
              then phaseNumber (trainA w) + 1 else phaseNumber (trainA w))
       \<and> phaseNumber (trainB (simulateStep w))
           = (if sweepPhase (trainB w) = ReturnFromBackward
                 \<and> sweepPhase (trainB (simulateStep w)) = SweepForward
              then phaseNumber (trainB w) + 1 else phaseNumber (trainB w))
       \<and> (sweepPhase (trainA (simulateStep w)) = sweepPhase (trainA w)
          \<or> sweepPhase (trainA (simulateStep w)) = nextSweepPhase (sweepPhase (trainA w)))
       \<and> (sweepPhase (trainB (simulateStep w)) = sweepPhase (trainB w)
          \<or> sweepPhase (trainB (simulateStep w)) = nextSweepPhase (sweepPhase (trainB w)))
       \<and> phaseNumber (trainA w) \<le> phaseNumber (trainA (stepN k w))
       \<and> phaseNumber (trainB w) \<le> phaseNumber (trainB (stepN k w))
       \<and> ((sweepPhase (trainA w) = ReturnFromBackward
              \<and> sweepPhase (trainA (simulateStep w)) = SweepForward)
          = (\<not> hasCollided w \<and> sweepPhase (trainA w) = ReturnFromBackward
              \<and> getNextAction (trainA w) (parachutePosition (trainB w)) = Forward
              \<and> stepsInPhase (trainA w) + 1 = phaseNumber (trainA w)))
       \<and> ((sweepPhase (trainB w) = ReturnFromBackward
              \<and> sweepPhase (trainB (simulateStep w)) = SweepForward)
          = (\<not> hasCollided w \<and> sweepPhase (trainB w) = ReturnFromBackward
              \<and> getNextAction (trainB w) (parachutePosition (trainA w)) = Forward
              \<and> stepsInPhase (trainB w) + 1 = phaseNumber (trainB w)))"
proof -
  let ?w = "stepN n (createSimulation D)"
  have bounds:
    "1 \<le> phaseNumber (trainA ?w)" "0 \<le> stepsInPhase (trainA ?w)"
    "stepsInPhase (trainA ?w) < phaseNumber (trainA ?w)"
    "1 \<le> phaseNumber (trainB ?w)" "0 \<le> stepsInPhase (trainB ?w)"
    "stepsInPhase (trainB ?w) < phaseNumber (trainB ?w)"
    using stepN_phase_bounds [of n D] by blast+
  show ?thesis
    unfolding w_def
    using bounds
          simulateStep_phase_changeA [of ?w] simulateStep_phase_changeB [of ?w]
          stepN_phase_monoA [of ?w k] stepN_phase_monoB [of ?w k]
          simulateStep_cycle_endA [OF bounds(3)] simulateStep_cycle_endB [OF bounds(6)]
    by blast
qed

theorem phase_counters_reachable_witness:
  "sweepPhase (trainA (stepN 3 (createSimulation 5))) = ReturnFromBackward
   \<and> phaseNumber (trainA (stepN 3 (createSimulation 5))) = 1
   \<and> sweepPhase (trainA (simulateStep (stepN 3 (createSimulation 5)))) = SweepForward
   \<and> phaseNumber (trainA (simulateStep (stepN 3 (createSimulation 5)))) = 2"
proof -
  have a: "sweepPhase (trainA (stepN 3 (createSimulation 5))) = ReturnFromBackward"
    by code_simp
  have b: "phaseNumber (trainA (stepN 3 (createSimulation 5))) = 1"
    by code_simp
  have c: "sweepPhase (trainA (simulateStep (stepN 3 (createSimulation 5)))) = SweepForward"
    by code_simp
  show ?thesis
    using a b c phase_counters_reachable [of 3 5 0] by simp
qed

section \<open>The loop of \<open>runSimulation\<close> as iterated steps\<close>

lemma stepN_Suc_front: "stepN (Suc n) w = stepN n (simulateStep w)"
  by (induction n) simp_all

lemma stepCount_simulateStep:
  "\<not> hasCollided w \<Longrightarrow> stepCount (simulateStep w) = stepCount w + 1"
  by (simp add: simulateStep_def Let_def)

lemma runLoop_stepN: "runLoop w S = stepN (nat (S - stepCount w)) w"
proof (induction w S rule: runLoop.induct)
  case (1 state maxSteps)
  show ?case
  proof (cases "\<not> hasCollided state \<and> stepCount state < maxSteps")
    case True
    have unroll: "runLoop state maxSteps = runLoop (simulateStep state) maxSteps"
      using True by (subst runLoop.simps) simp
    have ih: "runLoop (simulateStep state) maxSteps
                = stepN (nat (maxSteps - stepCount (simulateStep state))) (simulateStep state)"
      using True by (rule "1.IH")
    have cnt: "nat (maxSteps - stepCount state)
                 = Suc (nat (maxSteps - stepCount (simulateStep state)))"
    proof -
      have "stepCount (simulateStep state) = stepCount state + 1"
        using True by (simp add: stepCount_simulateStep)
      then show ?thesis using True by linarith
    qed
    show ?thesis
      by (simp only: unroll ih cnt stepN_Suc_front)
  next
    case False
    have stop: "runLoop state maxSteps = state"
      using False by (subst runLoop.simps) auto
    show ?thesis
    proof (cases "hasCollided state")
      case True
      then show ?thesis by (simp add: stop stepN_collided)
    next
      case False
      with \<open>\<not> (\<not> hasCollided state \<and> stepCount state < maxSteps)\<close>
      have "nat (maxSteps - stepCount state) = 0" by simp
      then show ?thesis by (simp add: stop)
    qed
  qed
qed

lemma runSimulation_stepN: "runSimulation D S = stepN (nat S) (createSimulation D)"
  by (simp add: runSimulation_def runLoop_stepN createSimulation_def)

section \<open>The trajectory for a positive separation\<close>

lemma searching_step:
  assumes "D \<noteq> 0" and "d \<noteq> D" and "d \<noteq> - D"
  shows "simulateStep (searching D d ph n s c)
           = (if n \<le> s + 1
              then searching D (d + sweepDirection ph) (nextSweepPhase ph)
                     (if ph = ReturnFromBackward then n + 1 else n) 0 (c + 1)
              else searching D (d + sweepDirection ph) ph n (s + 1) (c + 1))"
  using assms
  by (cases ph)
     (simp_all add: searching_def simulateStep_def getNextAction_def applyAction_def
        isAtForeignParachute_def checkCollision_def Let_def)

lemma searching_run:
  assumes "D \<noteq> 0"
    and "s + int k < n"
    and "\<forall>j<k. d + sweepDirection ph * int j \<noteq> D \<and> d + sweepDirection ph * int j \<noteq> - D"
  shows "stepN k (searching D d ph n s c)
           = searching D (d + sweepDirection ph * int k) ph n (s + int k) (c + int k)"
  using assms(2,3)
proof (induction k)
  case 0
  show ?case by simp
next
  case (Suc k)
  have ih: "stepN k (searching D d ph n s c)
              = searching D (d + sweepDirection ph * int k) ph n (s + int k) (c + int k)"
    using Suc by simp
  have free: "d + sweepDirection ph * int k \<noteq> D" "d + sweepDirection ph * int k \<noteq> - D"
    using Suc.prems(2) by simp_all
  have "\<not> n \<le> s + int k + 1" using Suc.prems(1) by simp
  then show ?case
    using searching_step [OF assms(1) free, of ph n "s + int k" "c + int k"] ih
    by (simp add: algebra_simps)
qed

lemma searching_subphase:
  assumes "D \<noteq> 0" and "0 < n"
    and "\<forall>j<n. d + sweepDirection ph * int j \<noteq> D \<and> d + sweepDirection ph * int j \<noteq> - D"
  shows "stepN n (searching D d ph (int n) 0 c)
           = searching D (d + sweepDirection ph * int n) (nextSweepPhase ph)
               (if ph = ReturnFromBackward then int n + 1 else int n) 0 (c + int n)"
proof -
  obtain k where n: "n = Suc k" using assms(2) by (cases n) simp_all
  have run: "stepN k (searching D d ph (int n) 0 c)
               = searching D (d + sweepDirection ph * int k) ph (int n) (0 + int k) (c + int k)"
    by (rule searching_run [OF assms(1)]) (use assms(3) n in simp_all)
  have free: "d + sweepDirection ph * int k \<noteq> D" "d + sweepDirection ph * int k \<noteq> - D"
    using assms(3) n by simp_all
  show ?thesis
    using searching_step [OF assms(1) free, of ph "int n" "int k" "c + int k"] run n
    by (simp add: algebra_simps)
qed


lemma searching_cycle:
  assumes "0 < n" and "int n < D"
  shows "stepN (n + n + n + n) (searching D 0 SweepForward (int n) 0 c)
           = searching D 0 SweepForward (int n + 1) 0 (c + 4 * int n)"
proof -
  have D: "D \<noteq> 0" using assms by simp
  have p1: "stepN n (searching D 0 SweepForward (int n) 0 c)
              = searching D (int n) ReturnFromForward (int n) 0 (c + int n)"
    using searching_subphase [OF D assms(1), of 0 SweepForward c] assms(2) by simp
  have p2: "stepN n (searching D (int n) ReturnFromForward (int n) 0 (c + int n))
              = searching D 0 SweepBackward (int n) 0 (c + int n + int n)"
    using searching_subphase [OF D assms(1), of "int n" ReturnFromForward "c + int n"] assms(2)
    by simp
  have p3: "stepN n (searching D 0 SweepBackward (int n) 0 (c + int n + int n))
              = searching D (- int n) ReturnFromBackward (int n) 0 (c + int n + int n + int n)"
    using searching_subphase [OF D assms(1), of 0 SweepBackward "c + int n + int n"] assms(2)
    by simp
  have p4: "stepN n (searching D (- int n) ReturnFromBackward (int n) 0 (c + int n + int n + int n))
              = searching D 0 SweepForward (int n + 1) 0 (c + int n + int n + int n + int n)"
    using searching_subphase [OF D assms(1), of "- int n" ReturnFromBackward
            "c + int n + int n + int n"] assms(2)
    by simp
  have "c + int n + int n + int n + int n = c + 4 * int n" by simp
  then show ?thesis
    by (simp only: stepN_add p1 p2 p3 p4)
qed

lemma createSimulation_searching: "createSimulation D = searching D 0 SweepForward 1 0 0"
  by (simp add: createSimulation_def createTrainState_def searching_def)

lemma searching_cycles:
  assumes "int m < D"
  shows "stepN (2 * m * Suc m) (createSimulation D)
           = searching D 0 SweepForward (int m + 1) 0 (int (2 * m * Suc m))"
  using assms
proof (induction m)
  case 0
  show ?case by (simp add: createSimulation_searching)
next
  case (Suc m)
  have ih: "stepN (2 * m * Suc m) (createSimulation D)
              = searching D 0 SweepForward (int (Suc m)) 0 (int (2 * m * Suc m))"
    using Suc by (simp add: add.commute)
  have split: "2 * Suc m * Suc (Suc m) = 2 * m * Suc m + (Suc m + Suc m + Suc m + Suc m)"
    by simp
  have cyc: "stepN (Suc m + Suc m + Suc m + Suc m)
               (searching D 0 SweepForward (int (Suc m)) 0 (int (2 * m * Suc m)))
             = searching D 0 SweepForward (int (Suc m) + 1) 0
                 (int (2 * m * Suc m) + 4 * int (Suc m))"
    by (rule searching_cycle) (use Suc.prems in simp_all)
  have cnt: "int (2 * m * Suc m) + 4 * int (Suc m) = int (2 * Suc m * Suc (Suc m))"
    by simp
  show ?case
    by (simp only: split stepN_add [of "2 * m * Suc m"] ih cyc cnt)
qed

lemma chasing_step:
  assumes "0 \<le> j" and "j + 1 < D"
  shows "simulateStep (chasing D j aw c) = chasing D (j + 1) True (c + 1)"
  using assms
  by (simp add: chasing_def simulateStep_def getNextAction_def applyAction_def
        isAtForeignParachute_def checkCollision_def Let_def)

lemma chasing_last:
  assumes "0 \<le> j" and "j + 1 = D" and "c + 1 = 2 * D * D"
  shows "simulateStep (chasing D j aw c) = met D"
  using assms
  by (simp add: chasing_def met_def simulateStep_def getNextAction_def applyAction_def
        isAtForeignParachute_def checkCollision_def Let_def)

lemma chasing_run:
  assumes "int k < D"
  shows "stepN k (chasing D 0 False c) = chasing D (int k) (0 < k) (c + int k)"
  using assms
proof (induction k)
  case 0
  show ?case by simp
next
  case (Suc k)
  have ih: "stepN k (chasing D 0 False c) = chasing D (int k) (0 < k) (c + int k)"
    using Suc by simp
  show ?case
    using chasing_step [of "int k" D "0 < k" "c + int k"] Suc.prems ih
    by (simp add: algebra_simps)
qed

lemma searching_chasing: "searching D D ReturnFromForward D 0 c = chasing D 0 False c"
  by (simp add: searching_def chasing_def)

lemma run_to_met:
  "stepN (2 * Suc m * Suc m) (createSimulation (int (Suc m))) = met (int (Suc m))"
proof -
  let ?D = "int (Suc m)"
  let ?c1 = "int (2 * m * Suc m)"
  have D: "?D \<noteq> 0" by simp
  have a: "stepN (2 * m * Suc m) (createSimulation ?D)
             = searching ?D 0 SweepForward ?D 0 ?c1"
    using searching_cycles [of m ?D] by (simp add: add.commute)
  have b: "stepN (Suc m) (searching ?D 0 SweepForward ?D 0 ?c1)
             = chasing ?D 0 False (?c1 + ?D)"
    using searching_subphase [OF D, of "Suc m" 0 SweepForward ?c1]
    by (simp add: searching_chasing)
  have c: "stepN m (chasing ?D 0 False (?c1 + ?D))
             = chasing ?D (int m) (0 < m) (?c1 + ?D + int m)"
    by (rule chasing_run) simp
  have d: "simulateStep (chasing ?D (int m) (0 < m) (?c1 + ?D + int m)) = met ?D"
    by (rule chasing_last) (simp_all add: algebra_simps)
  have split: "2 * Suc m * Suc m = Suc (2 * m * Suc m + Suc m + m)"
    by simp
  show ?thesis
    by (simp only: split stepN.simps(2) [of "2 * m * Suc m + Suc m + m"] stepN_add a b c d)
qed

lemma stepN_past_met:
  assumes "1 \<le> D" and "2 * D * D \<le> int n"
  shows "stepN n (createSimulation D) = met D"
proof -
  have "D = int (Suc (nat (D - 1)))" using assms(1) by simp
  then obtain m where m: "D = int (Suc m)" ..
  have "int (2 * Suc m * Suc m) = 2 * D * D" unfolding m by (simp add: algebra_simps)
  then have "int (2 * Suc m * Suc m) \<le> int n" using assms(2) by simp
  then have "2 * Suc m * Suc m \<le> n" by linarith
  then obtain r where r: "n = 2 * Suc m * Suc m + r"
    using le_Suc_ex by blast
  have "hasCollided (met D)" by (simp add: met_def)
  then show ?thesis
    unfolding r stepN_add m run_to_met by (simp add: stepN_collided m)
qed

section \<open>Exchanging the trains\<close>

lemma tick_shiftTrain:
  "applyAction (shiftTrain c t) (getNextAction (shiftTrain c t) (oh + c)) (oh + c)
     = shiftTrain c (applyAction t (getNextAction t oh) oh)"
  by (cases "sweepPhase t")
     (simp_all add: shiftTrain_def getNextAction_def applyAction_def
        isAtForeignParachute_def Let_def)

lemma shiftTrain_fields:
  "position (shiftTrain c t) = position t + c"
  "parachutePosition (shiftTrain c t) = parachutePosition t + c"
  by (simp_all add: shiftTrain_def)

lemma swapShift_fields:
  "trainA (swapShift c w) = shiftTrain c (trainB w)"
  "trainB (swapShift c w) = shiftTrain c (trainA w)"
  "hasCollided (swapShift c w) = hasCollided w"
  "stepCount (swapShift c w) = stepCount w"
  by (simp_all add: swapShift_def)

lemma simulateStep_swapShift: "simulateStep (swapShift c w) = swapShift c (simulateStep w)"
proof (cases "hasCollided w")
  case True
  then show ?thesis by (simp add: simulateStep_collided swapShift_fields)
next
  case False
  let ?a = "applyAction (trainA w) (getNextAction (trainA w) (parachutePosition (trainB w)))
              (parachutePosition (trainB w))"
  let ?b = "applyAction (trainB w) (getNextAction (trainB w) (parachutePosition (trainA w)))
              (parachutePosition (trainA w))"
  have lhs: "simulateStep (swapShift c w)
               = \<lparr>trainA = shiftTrain c ?b, trainB = shiftTrain c ?a,
                  stepCount = stepCount w + 1,
                  hasCollided = (position ?b + c = position ?a + c),
                  collisionPosition = (if position ?b + c = position ?a + c
                                       then Some (position ?b + c) else None)\<rparr>"
    using False
    by (simp add: simulateStep_def [of "swapShift c w"] Let_def swapShift_fields
          shiftTrain_fields tick_shiftTrain checkCollision_def)
  have rhs: "simulateStep w
               = \<lparr>trainA = ?a, trainB = ?b, stepCount = stepCount w + 1,
                  hasCollided = (position ?a = position ?b),
                  collisionPosition = (if position ?a = position ?b
                                       then Some (position ?a) else None)\<rparr>"
    using False by (simp add: simulateStep_def Let_def checkCollision_def)
  show ?thesis
    unfolding lhs rhs by (auto simp: swapShift_def)
qed

lemma stepN_swapShift: "stepN n (swapShift c w) = swapShift c (stepN n w)"
  by (induction n) (simp_all add: simulateStep_swapShift)

lemma createSimulation_neg: "createSimulation (- D) = swapShift (- D) (createSimulation D)"
  by (simp add: createSimulation_def createTrainState_def swapShift_def shiftTrain_def)

lemma stepN_neg:
  "stepN n (createSimulation (- D)) = swapShift (- D) (stepN n (createSimulation D))"
  by (simp only: createSimulation_neg stepN_swapShift)

section \<open>Eventual collision\<close>

lemma collides_from:
  assumes "max 1 (2 * D * D) \<le> int n"
  shows "hasCollided (stepN n (createSimulation D))"
proof -
  consider "1 \<le> D" | "D = 0" | "1 \<le> - D" by linarith
  then show ?thesis
  proof cases
    case 1
    then have "stepN n (createSimulation D) = met D"
      using assms by (intro stepN_past_met) simp_all
    then show ?thesis by (simp add: met_def)
  next
    case 2
    obtain r where r: "n = Suc r" using assms by (cases n) simp_all
    have "hasCollided (simulateStep (createSimulation 0))"
      by (simp add: createSimulation_def createTrainState_def simulateStep_def
            getNextAction_def applyAction_def isAtForeignParachute_def
            checkCollision_def Let_def)
    then show ?thesis
      by (simp only: 2 r stepN_Suc_front stepN_collided)
  next
    case 3
    have "2 * (- D) * (- D) \<le> int n" using assms by simp
    with 3 have "stepN n (createSimulation (- D)) = met (- D)"
      by (intro stepN_past_met)
    then have "hasCollided (stepN n (createSimulation (- D)))" by (simp add: met_def)
    then show ?thesis
      using stepN_neg [of n "- D"] by (simp add: swapShift_fields)
  qed
qed

text \<open>
  C1. For every separation \<open>D\<close> (whatever its size or sign) there is a step budget with
  which \<open>runSimulation\<close> ends in a collision: \<open>max 1 (2 * D * D)\<close> is one. In particular
  \<open>runSimulation 100 50000\<close> collides.
\<close>

theorem eventual_collision:
  "(\<exists>S. hasCollided (runSimulation D S))
   \<and> hasCollided (runSimulation D (max 1 (2 * D * D)))
   \<and> hasCollided (runSimulation 100 50000)"
proof -
  have a: "hasCollided (runSimulation D (max 1 (2 * D * D)))"
    unfolding runSimulation_stepN by (rule collides_from) simp
  have b: "hasCollided (runSimulation 100 50000)"
    unfolding runSimulation_stepN by (rule collides_from) simp
  from a b show ?thesis by blast
qed

section \<open>Where the trains meet\<close>




section \<open>The runs for \<open>D\<close> and \<open>- D\<close>\<close>

text \<open>
  C8, as the claim states it, fails: every train starts by sweeping forward whatever the
  sign of the separation, so after one tick with separations 1 and \<open>- 1\<close> train A is at
  1 in both runs, and train B is at 2 and at 0. (At values this small the exact and the
  rounded arithmetic coincide.)
\<close>

theorem mirror_symmetry_counterexample:
  "\<not> (position (trainA (stepN 1 (createSimulation (- 1))))
         = - position (trainA (stepN 1 (createSimulation 1)))
      \<and> position (trainB (stepN 1 (createSimulation (- 1))))
         = - position (trainB (stepN 1 (createSimulation 1))))"
  by code_simp

lemma stepN_exchange:
  "position (trainA (stepN t (createSimulation (- D))))
     = position (trainB (stepN t (createSimulation D))) - D
 \<and> position (trainB (stepN t (createSimulation (- D))))
     = position (trainA (stepN t (createSimulation D))) - D
 \<and> hasCollided (stepN t (createSimulation (- D)))
     = hasCollided (stepN t (createSimulation D))"
  by (simp add: stepN_neg swapShift_fields shiftTrain_fields)

section \<open>Exact arithmetic within the range of the number type\<close>

lemma roundNumber_exact: "\<bar>y\<bar> \<le> 2 ^ 53 \<Longrightarrow> roundNumber y = y"
  by (simp add: roundNumber_def)

lemma applyActionNum_exact:
  assumes "trainWithin b t" and "b < 2 ^ 53"
  shows "applyActionNum t a oh = applyAction t a oh"
proof -
  have r: "roundNumber (position t + 1) = position t + 1"
          "roundNumber (position t - 1) = position t - 1"
          "roundNumber (distanceFromHome t + 1) = distanceFromHome t + 1"
          "roundNumber (distanceFromHome t - 1) = distanceFromHome t - 1"
          "roundNumber (stepsInPhase t + 1) = stepsInPhase t + 1"
          "roundNumber (phaseNumber t + 1) = phaseNumber t + 1"
    using assms by (auto simp: trainWithin_def intro!: roundNumber_exact)
  show ?thesis
    by (cases a; cases "sweepPhase t")
       (simp_all add: applyActionNum_def applyAction_def Let_def r)
qed

lemma applyAction_within:
  assumes "trainWithin b t"
  shows "trainWithin (b + 1) (applyAction t a oh)"
  using assms
  by (cases a; cases "sweepPhase t")
     (auto simp: trainWithin_def applyAction_def Let_def)

lemma simulateStepNum_exact:
  assumes "worldWithin b w" and "b < 2 ^ 53"
  shows "simulateStepNum w = simulateStep w"
proof -
  have "roundNumber (stepCount w + 1) = stepCount w + 1"
    using assms by (auto simp: worldWithin_def intro!: roundNumber_exact)
  moreover have "applyActionNum (trainA w) a oh = applyAction (trainA w) a oh" for a oh
    using assms by (auto simp: worldWithin_def intro: applyActionNum_exact)
  moreover have "applyActionNum (trainB w) a oh = applyAction (trainB w) a oh" for a oh
    using assms by (auto simp: worldWithin_def intro: applyActionNum_exact)
  ultimately show ?thesis
    by (simp add: simulateStepNum_def simulateStep_def)
qed

lemma trainWithin_mono: "trainWithin b t \<Longrightarrow> b \<le> c \<Longrightarrow> trainWithin c t"
  by (auto simp: trainWithin_def)

lemma simulateStep_within:
  assumes "worldWithin b w"
  shows "worldWithin (b + 1) (simulateStep w)"
proof (cases "hasCollided w")
  case True
  then show ?thesis
    using assms by (auto simp: simulateStep_collided worldWithin_def intro: trainWithin_mono)
next
  case False
  then show ?thesis
    using assms
    by (auto simp: simulateStep_def Let_def worldWithin_def intro: applyAction_within)
qed

lemma createSimulation_within: "worldWithin (\<bar>D\<bar> + 1) (createSimulation D)"
  by (simp add: worldWithin_def trainWithin_def createSimulation_def createTrainState_def)

lemma stepN_within: "worldWithin (\<bar>D\<bar> + 1 + int n) (stepN n (createSimulation D))"
proof (induction n)
  case 0
  show ?case using createSimulation_within [of D] by simp
next
  case (Suc n)
  show ?case
    using simulateStep_within [OF Suc] by (simp add: add.assoc add.commute)
qed

lemma stepNNum_exact:
  assumes "\<bar>D\<bar> + int n < 2 ^ 53"
  shows "stepNNum n (createSimulation D) = stepN n (createSimulation D)"
  using assms
proof (induction n)
  case 0
  show ?case by simp
next
  case (Suc n)
  have ih: "stepNNum n (createSimulation D) = stepN n (createSimulation D)"
    using Suc by simp
  have "\<bar>D\<bar> + 1 + int n < 2 ^ 53" using Suc.prems by simp
  then have "simulateStepNum (stepN n (createSimulation D))
               = simulateStep (stepN n (createSimulation D))"
    using stepN_within [of D n] by (rule simulateStepNum_exact [rotated])
  then show ?case by (simp add: ih)
qed

section \<open>The offset invariant in the source's arithmetic\<close>

text \<open>
  C6, as the claim states it, fails at the edge of the number type: with separation
  \<open>2 ^ 53\<close> the first tick moves train B forward, \<open>position + 1\<close> rounds back to
  \<open>2 ^ 53\<close> while \<open>distanceFromHome\<close> becomes 1, so \<open>distanceFromHome\<close> is 1 and
  \<open>position - parachutePosition\<close> is 0.
\<close>

theorem offset_invariant_counterexample:
  "distanceFromHome (trainB (stepNNum 1 (createSimulation (2 ^ 53))))
     \<noteq> position (trainB (stepNNum 1 (createSimulation (2 ^ 53))))
        - parachutePosition (trainB (stepNNum 1 (createSimulation (2 ^ 53))))"
  by code_simp

text \<open>
  C6, amended. For every separation \<open>D\<close> and number of steps \<open>n\<close> with
  \<open>\<bar>D\<bar> + n < 2 ^ 53\<close>, the world reached from \<open>createSimulation D\<close> by \<open>n\<close> steps, in
  the source's arithmetic, has \<open>distanceFromHome = position - parachutePosition\<close> for
  both trains.
\<close>

theorem offset_invariant_in_range:
  assumes "\<bar>D\<bar> + int n < 2 ^ 53"
  shows "distanceFromHome (trainA (stepNNum n (createSimulation D)))
           = position (trainA (stepNNum n (createSimulation D)))
             - parachutePosition (trainA (stepNNum n (createSimulation D)))
       \<and> distanceFromHome (trainB (stepNNum n (createSimulation D)))
           = position (trainB (stepNNum n (createSimulation D)))
             - parachutePosition (trainB (stepNNum n (createSimulation D)))"
  unfolding stepNNum_exact [OF assms] by (rule stepN_offset)

theorem offset_invariant_in_range_witness:
  "\<bar>3\<bar> + int 7 < (2 ^ 53 :: int)
   \<and> distanceFromHome (trainA (stepNNum 7 (createSimulation 3)))
       = position (trainA (stepNNum 7 (createSimulation 3)))
         - parachutePosition (trainA (stepNNum 7 (createSimulation 3)))
   \<and> distanceFromHome (trainB (stepNNum 7 (createSimulation 3)))
       = position (trainB (stepNNum 7 (createSimulation 3)))
         - parachutePosition (trainB (stepNNum 7 (createSimulation 3)))"
proof -
  have h: "\<bar>3\<bar> + int 7 < (2 ^ 53 :: int)" by simp
  show ?thesis using h offset_invariant_in_range [OF h] by simp
qed

section \<open>The runs for \<open>D\<close> and \<open>- D\<close> in the source's arithmetic\<close>

text \<open>
  C8, amended. For every separation \<open>D\<close> and tick count \<open>t\<close> with \<open>\<bar>D\<bar> + t < 2 ^ 53\<close>,
  the run with separation \<open>- D\<close> is the run with separation \<open>D\<close> with the two trains
  exchanged and every coordinate translated by \<open>- D\<close>: train A's position after \<open>t\<close>
  steps from \<open>createSimulation (- D)\<close> is train B's position after \<open>t\<close> steps from
  \<open>createSimulation D\<close> minus \<open>D\<close>, train B's is train A's minus \<open>D\<close>, and the two runs
  have collided, or not, at the same ticks.
\<close>

theorem exchange_symmetry_in_range:
  assumes "\<bar>D\<bar> + int t < 2 ^ 53"
  shows "position (trainA (stepNNum t (createSimulation (- D))))
           = position (trainB (stepNNum t (createSimulation D))) - D
       \<and> position (trainB (stepNNum t (createSimulation (- D))))
           = position (trainA (stepNNum t (createSimulation D))) - D
       \<and> hasCollided (stepNNum t (createSimulation (- D)))
           = hasCollided (stepNNum t (createSimulation D))"
proof -
  have neg: "\<bar>- D\<bar> + int t < 2 ^ 53" using assms by simp
  show ?thesis
    unfolding stepNNum_exact [OF assms] stepNNum_exact [OF neg] by (rule stepN_exchange)
qed

theorem exchange_symmetry_in_range_witness:
  "\<bar>2\<bar> + int 7 < (2 ^ 53 :: int)
   \<and> position (trainA (stepNNum 7 (createSimulation (- 2)))) = 1
   \<and> position (trainB (stepNNum 7 (createSimulation 2))) = 3
   \<and> position (trainB (stepNNum 7 (createSimulation (- 2)))) = 0
   \<and> position (trainA (stepNNum 7 (createSimulation 2))) = 2"
proof -
  have h: "\<bar>2\<bar> + int 7 < (2 ^ 53 :: int)" by simp
  have b: "position (trainB (stepNNum 7 (createSimulation 2))) = 3" by code_simp
  have a: "position (trainA (stepNNum 7 (createSimulation 2))) = 2" by code_simp
  show ?thesis using h a b exchange_symmetry_in_range [OF h] by simp
qed

end
